theory Spec2Isabelle
  imports Main "HOL-Library.Word" "HOL-Library.Sublist" "HOL-Library.Char_ord"
    "HOL-Library.List_Lexorder"
begin

section \<open>Data model\<close>

text \<open>
  An instant of \<^verbatim>\<open>time.Time\<close> is the number of nanoseconds since the Unix epoch
  (Go's range of instants is far wider than 64 bits, hence \<open>int\<close>). A
  \<^verbatim>\<open>time.Duration\<close> is an \<^verbatim>\<open>int64\<close> count of nanoseconds: arithmetic on it wraps.
\<close>

type_synonym Time = int
type_synonym Duration = "64 word"

definition Second :: Duration where
  "Second = 1000000000"

text \<open>\<^verbatim>\<open>t.Add(d)\<close>: the instant \<open>d\<close> after \<open>t\<close>; the duration is read as a signed number.\<close>

definition Time_Add :: "Time \<Rightarrow> Duration \<Rightarrow> Time" where
  "Time_Add t d = t + sint d"

text \<open>\<^verbatim>\<open>time.Duration(n)\<close> for an integer \<open>n\<close>: conversion to \<^verbatim>\<open>int64\<close>.\<close>

definition Duration_of :: "int \<Rightarrow> Duration" where
  "Duration_of n = word_of_int n"

text \<open>The zero value of \<^verbatim>\<open>time.Time\<close> is January 1, year 1, 00:00 UTC.\<close>

definition zero_Time :: Time where
  "zero_Time = - 62135596800000000000"

text \<open>
  The error kinds of the system (the taxonomy of the design document), and
  \<open>Other\<close> for an error of a library (a body that does not parse, a driver error).
\<close>

datatype error =
    InvalidInput | Conflict | Unauthorized | Expired | NotFound | Forbidden
  | InternalError | Other string

text \<open>
  \<^verbatim>\<open>models.Session\<close>, with the columns of the \<^verbatim>\<open>session\<close> table
  (migration \<^verbatim>\<open>20250509083727_session.go\<close>).
\<close>

record Session =
  Id :: string
  UserId :: string
  UserAgent :: string
  IpAddress :: string
  ExpiresAt :: Time
  CreatedAt :: Time
  UpdatedAt :: Time

text \<open>\<^verbatim>\<open>new(models.Session)\<close>: every field at its zero value.\<close>

definition new_Session :: Session where
  "new_Session =
     \<lparr>Id = [], UserId = [], UserAgent = [], IpAddress = [],
      ExpiresAt = zero_Time, CreatedAt = zero_Time, UpdatedAt = zero_Time\<rparr>"

record LoginRequest =
  Email :: string
  Password :: string

record LoginResponse =
  resp_Token :: string
  resp_UserId :: string
  resp_SessionId :: string

record RegisterRequest =
  reg_Email :: string
  reg_Username :: string
  reg_Password :: string

record RegisterResponse =
  reg_UserId :: string

text \<open>
  Modelled from the spec: \<^verbatim>\<open>models.User\<close> is not in the sources at hand. The fields
  are the identity attributes of the design document (id, email, username, password
  hash, active flag, preference blob) and the columns named by the queries of the user
  repository (\<^verbatim>\<open>name\<close>, \<^verbatim>\<open>avatar_url\<close>, \<^verbatim>\<open>created_at\<close>, \<^verbatim>\<open>updated_at\<close>).
\<close>

record User =
  user_Id :: string
  user_Name :: string
  user_Username :: string
  user_Email :: string
  user_Password :: string
  user_AvatarUrl :: string
  user_Active :: bool
  user_Preferences :: string
  user_CreatedAt :: Time
  user_UpdatedAt :: Time

text \<open>The zero value \<^verbatim>\<open>models.User{}\<close> (\<^verbatim>\<open>var user models.User\<close>).\<close>

definition zero_User :: User where
  "zero_User =
     \<lparr>user_Id = [], user_Name = [], user_Username = [], user_Email = [],
      user_Password = [], user_AvatarUrl = [], user_Active = False,
      user_Preferences = [], user_CreatedAt = zero_Time, user_UpdatedAt = zero_Time\<rparr>"

section \<open>The world a handler runs in\<close>

text \<open>
  The database holds the two tables the sources name, each a list of rows, and the text
  of the statement that created the \<^verbatim>\<open>session\<close> table (\<open>None\<close> before the migration).
  The engine behind it is not part of the program: \<open>exec_error\<close> is the error with
  which it refuses a statement, if it does, and \<open>foreign_keys\<close> tells whether it enforces
  the foreign keys a table declares on this connection (sqlite does so only when the
  connection turns \<^verbatim>\<open>PRAGMA foreign_keys\<close> on).
  The clock is read by \<^verbatim>\<open>time.Now()\<close>: \<open>clock w n\<close> is the instant returned by the
  \<open>n\<close>-th read and \<open>clock_reads\<close> counts the reads made so far, so that two reads in
  one request may differ. \<open>config_Session_Expire\<close> is \<^verbatim>\<open>config.Session.Expire\<close>
  (seconds) and \<open>config_Database_Dialect\<close> is \<^verbatim>\<open>config.Database.Dialect\<close>.
\<close>

record World =
  user_table :: "User list"
  session_table :: "Session list"
  session_ddl :: "string option"
  exec_error :: "string \<Rightarrow> error option"
  foreign_keys :: bool
  clock :: "nat \<Rightarrow> Time"
  clock_reads :: nat
  config_Session_Expire :: int
  config_Database_Dialect :: string

definition time_Now :: "World \<Rightarrow> Time \<times> World" where
  "time_Now w = (clock w (clock_reads w), w\<lparr>clock_reads := Suc (clock_reads w)\<rparr>)"

text \<open>
  Modelled from the spec: \<^verbatim>\<open>tokenutil.IsSessionExpired\<close> is not in the sources at hand.
  The design document gives the predicate: a session is expired when
  \<open>now \<ge> expires_at\<close>.
\<close>

definition IsSessionExpired :: "Time \<Rightarrow> World \<Rightarrow> bool \<times> World" where
  "IsSessionExpired expiresAt w =
     (case time_Now w of (now, w') \<Rightarrow> (expiresAt \<le> now, w'))"

section \<open>Requests and responses\<close>

text \<open>
  A value of type \<^verbatim>\<open>interface{}\<close> as \<^verbatim>\<open>ctx.Locals\<close> returns it: \<^verbatim>\<open>nil\<close> when
  nothing was stored under the key, a string, or a value of another type.
\<close>

datatype iface = INil | IString string | IOther

text \<open>
  The request context \<^verbatim>\<open>*fiber.Ctx\<close>: the outcome of \<^verbatim>\<open>ctx.BodyParser\<close> into the
  handler's request struct, the request headers (\<^verbatim>\<open>ctx.Get\<close> gives the empty string for
  a header that is absent), the remote address and the values the middleware stored.
\<close>

record 'b Ctx =
  BodyParser :: "error + 'b"
  Header :: "string \<Rightarrow> string"
  IP :: string
  Locals :: "string \<Rightarrow> iface"

text \<open>The checked assertion \<^verbatim>\<open>v, ok := x.(string)\<close>.\<close>

fun assert_string_ok :: "iface \<Rightarrow> string \<times> bool" where
  "assert_string_ok (IString s) = (s, True)"
| "assert_string_ok INil = ([], False)"
| "assert_string_ok IOther = ([], False)"

text \<open>The unchecked assertion \<^verbatim>\<open>x.(string)\<close> panics on anything but a string.\<close>

datatype panic = InterfaceConversion

fun assert_string :: "iface \<Rightarrow> panic + string" where
  "assert_string (IString s) = Inr s"
| "assert_string INil = Inl InterfaceConversion"
| "assert_string IOther = Inl InterfaceConversion"

datatype json = JString string | JBool bool

datatype body = fiber_Map "(string \<times> json) list" | JSON_LoginResponse LoginResponse

record Response =
  Status :: nat
  Body :: body

abbreviation StatusOK :: nat where "StatusOK \<equiv> 200"
abbreviation StatusCreated :: nat where "StatusCreated \<equiv> 201"
abbreviation StatusBadRequest :: nat where "StatusBadRequest \<equiv> 400"
abbreviation StatusUnauthorized :: nat where "StatusUnauthorized \<equiv> 401"
abbreviation StatusNotFound :: nat where "StatusNotFound \<equiv> 404"
abbreviation StatusConflict :: nat where "StatusConflict \<equiv> 409"
abbreviation StatusInternalServerError :: nat where "StatusInternalServerError \<equiv> 500"

text \<open>\<^verbatim>\<open>ctx.Status(code).JSON(v)\<close>\<close>

definition JSON :: "nat \<Rightarrow> body \<Rightarrow> Response" where
  "JSON code v = \<lparr>Status = code, Body = v\<rparr>"

section \<open>The authentication controller\<close>

text \<open>
  \<^verbatim>\<open>AuthController\<close> holds two interface values, \<^verbatim>\<open>models.AuthService\<close> and
  \<^verbatim>\<open>models.SessionService\<close>; the handlers work with whatever implementation was
  injected. A method is a function on the world that returns its Go results and the
  world it leaves behind; a Go \<^verbatim>\<open>error\<close> result is \<open>None\<close> for \<^verbatim>\<open>nil\<close>.
\<close>

record AuthController =
  AuthService_Login :: "LoginRequest \<Rightarrow> World \<Rightarrow> (error + LoginResponse) \<times> World"
  AuthService_Register :: "RegisterRequest \<Rightarrow> World \<Rightarrow> (error + RegisterResponse) \<times> World"
  SessionService_Create :: "Session \<Rightarrow> World \<Rightarrow> error option \<times> World"
  SessionService_GetById :: "string \<Rightarrow> World \<Rightarrow> (error + Session) \<times> World"
  SessionService_Delete :: "string \<Rightarrow> World \<Rightarrow> error option \<times> World"

text \<open>A handler returns its response, or panics, and leaves a world behind.\<close>

type_synonym Handler_result = "(panic + Response) \<times> World"

text \<open>
  Lines 44 to 49 of \<^verbatim>\<open>Login\<close>: the session to register, built from the login
  response, the request, the instant \<^verbatim>\<open>time.Now()\<close> returned and
  \<^verbatim>\<open>config.Session.Expire\<close>.
\<close>

definition Login_session :: "LoginResponse \<Rightarrow> 'b Ctx \<Rightarrow> Time \<Rightarrow> int \<Rightarrow> Session" where
  "Login_session loginResponse ctx now expire =
     new_Session
       \<lparr>UserId := resp_UserId loginResponse,
        Id := resp_SessionId loginResponse,
        UserAgent := Header ctx ''User-Agent'',
        IpAddress := IP ctx,
        ExpiresAt := Time_Add now (Second * Duration_of expire)\<rparr>"

definition Login :: "AuthController \<Rightarrow> LoginRequest Ctx \<Rightarrow> World \<Rightarrow> Handler_result" where
  "Login ac ctx w =
     (case BodyParser ctx of
        Inl err \<Rightarrow>
          (Inr (JSON StatusBadRequest (fiber_Map [(''error'', JString ''Invalid request'')])), w)
      | Inr loginRequest \<Rightarrow>
          (case AuthService_Login ac loginRequest w of
             (Inl err, w1) \<Rightarrow>
               (Inr (JSON StatusUnauthorized
                      (fiber_Map [(''error'', JString ''Invalid credentials'')])), w1)
           | (Inr loginResponse, w1) \<Rightarrow>
               (case time_Now w1 of
                  (now, w2) \<Rightarrow>
                    (let session = Login_session loginResponse ctx now (config_Session_Expire w2)
                     in case SessionService_Create ac session w2 of
                          (Some err, w3) \<Rightarrow>
                            (Inr (JSON StatusInternalServerError
                                   (fiber_Map [(''error'', JString ''Internal server error'')])), w3)
                        | (None, w3) \<Rightarrow>
                            (Inr (JSON StatusOK (JSON_LoginResponse loginResponse)), w3)))))"

definition Logout :: "AuthController \<Rightarrow> 'b Ctx \<Rightarrow> World \<Rightarrow> Handler_result" where
  "Logout ac ctx w =
     (case assert_string (Locals ctx ''user_id'') of
        Inl p \<Rightarrow> (Inl p, w)
      | Inr userId \<Rightarrow>
          (case assert_string (Locals ctx ''session_id'') of
             Inl p \<Rightarrow> (Inl p, w)
           | Inr sessionId \<Rightarrow>
               (case SessionService_Delete ac sessionId w of
                  (Some err, w1) \<Rightarrow>
                    (Inr (JSON StatusInternalServerError
                           (fiber_Map [(''error'', JString ''Internal server error'')])), w1)
                | (None, w1) \<Rightarrow>
                    (Inr (JSON StatusOK
                           (fiber_Map [(''message'', JString ''Logged out successfully'')])), w1))))"

definition Register :: "AuthController \<Rightarrow> RegisterRequest Ctx \<Rightarrow> World \<Rightarrow> Handler_result" where
  "Register ac ctx w =
     (case BodyParser ctx of
        Inl err \<Rightarrow>
          (Inr (JSON StatusBadRequest (fiber_Map [(''error'', JString ''Invalid request'')])), w)
      | Inr registerRequest \<Rightarrow>
          (case AuthService_Register ac registerRequest w of
             (Inl err, w1) \<Rightarrow>
               (Inr (JSON StatusConflict
                      (fiber_Map [(''error'', JString ''User already exists'')])), w1)
           | (Inr _, w1) \<Rightarrow>
               (Inr (JSON StatusCreated
                      (fiber_Map [(''message'', JString ''User registered successfully'')])), w1)))"

definition ValidateSession :: "AuthController \<Rightarrow> 'b Ctx \<Rightarrow> World \<Rightarrow> Handler_result" where
  "ValidateSession ac ctx w =
     (case assert_string_ok (Locals ctx ''session_id'') of
        (sessionId, ok) \<Rightarrow>
          if \<not> ok \<or> sessionId = [] then
            (Inr (JSON StatusUnauthorized (fiber_Map [(''error'', JString ''Invalid session'')])), w)
          else
            (case assert_string_ok (Locals ctx ''user_id'') of
               (userId, ok) \<Rightarrow>
                 if \<not> ok \<or> userId = [] then
                   (Inr (JSON StatusUnauthorized
                          (fiber_Map [(''error'', JString ''Invalid session'')])), w)
                 else
                   (case SessionService_GetById ac sessionId w of
                      (Inl err, w1) \<Rightarrow>
                        (Inr (JSON StatusNotFound
                               (fiber_Map [(''error'', JString ''Session not found'')])), w1)
                    | (Inr session, w1) \<Rightarrow>
                        if UserId session \<noteq> userId then
                          (Inr (JSON StatusUnauthorized
                                 (fiber_Map [(''error'', JString ''Invalid session'')])), w1)
                        else
                          (case IsSessionExpired (ExpiresAt session) w1 of
                             (expired, w2) \<Rightarrow>
                               if expired then
                                 (Inr (JSON StatusUnauthorized
                                        (fiber_Map [(''error'', JString ''Session expired'')])), w2)
                               else
                                 (Inr (JSON StatusOK (fiber_Map [(''valid'', JBool True)])), w2)))))"

text \<open>
  The middleware attached an identifier under a key of \<^verbatim>\<open>ctx.Locals\<close>: the value
  stored there is a string and is not empty.
\<close>

definition attached :: "iface \<Rightarrow> bool" where
  "attached v = (case v of IString s \<Rightarrow> s \<noteq> [] | INil \<Rightarrow> False | IOther \<Rightarrow> False)"

text \<open>
  A session with the two attributes captured for audit blanked: two sessions with the
  same image differ at most in \<open>user_agent\<close> and \<open>ip_address\<close>.
\<close>

definition audit_erased :: "Session \<Rightarrow> Session" where
  "audit_erased s = s\<lparr>UserAgent := [], IpAddress := []\<rparr>"

section \<open>The session table and its migration\<close>

definition tab :: string where
  "tab = [CHR 0x09]"

definition nl :: string where
  "nl = [CHR 0x0A]"

text \<open>The two statements of \<^verbatim>\<open>upSession\<close>, line by line as the raw string literals have them.\<close>

definition sqlite_query :: string where
  "sqlite_query = concat
     [nl,
      tab, tab, ''CREATE TABLE IF NOT EXISTS session ('', nl,
      tab, tab, tab, ''id TEXT PRIMARY KEY,'', nl,
      tab, tab, tab, ''user_id TEXT NOT NULL,'', nl,
      tab, tab, tab, ''user_agent TEXT NOT NULL,'', nl,
      tab, tab, tab, ''ip_address TEXT NOT NULL,'', nl,
      tab, tab, tab, ''expires_at datetime NOT NULL,'', nl,
      tab, tab, tab, ''created_at datetime NOT NULL,'', nl,
      tab, tab, tab, ''updated_at datetime NOT NULL,'', nl,
      tab, tab, tab, ''FOREIGN KEY (user_id) REFERENCES user(id) ON DELETE CASCADE'', nl,
      tab, tab, '');'', nl,
      tab, tab, ''CREATE INDEX IF NOT EXISTS idx_session_user_id ON session (user_id);'', nl,
      tab, tab]"




text \<open>\<^verbatim>\<open>strings.Contains\<close>: \<open>sub\<close> occurs in \<open>s\<close> as a contiguous block.\<close>

fun contains :: "string \<Rightarrow> string \<Rightarrow> bool" where
  "contains [] sub = (sub = [])"
| "contains (c # cs) sub = (prefix sub (c # cs) \<or> contains cs sub)"

text \<open>
  What the statement that created the table declares: rows of \<^verbatim>\<open>session\<close> refer to
  rows of \<^verbatim>\<open>user\<close> through \<^verbatim>\<open>user_id\<close>, and are to go when the row they refer to is
  deleted.
\<close>

definition fk_clause :: string where
  "fk_clause = ''FOREIGN KEY (user_id) REFERENCES user(id) ON DELETE CASCADE''"

definition on_delete_cascade :: "World \<Rightarrow> bool" where
  "on_delete_cascade w =
     (case session_ddl w of None \<Rightarrow> False | Some q \<Rightarrow> contains q fk_clause)"

text \<open>The declaration is in force: the table declares it and the engine enforces it.\<close>

definition cascade_enforced :: "World \<Rightarrow> bool" where
  "cascade_enforced w \<longleftrightarrow> foreign_keys w \<and> on_delete_cascade w"


section \<open>The user repository\<close>

text \<open>
  \<^verbatim>\<open>db.Select(columns)\<close> followed by a scan into a zero \<^verbatim>\<open>models.User\<close>: the
  columns of the select list are copied from the row, every other field keeps its zero
  value.
\<close>

definition scan_column :: "User \<Rightarrow> string \<Rightarrow> User \<Rightarrow> User" where
  "scan_column row c dest =
     (if c = ''id'' then dest\<lparr>user_Id := user_Id row\<rparr>
      else if c = ''name'' then dest\<lparr>user_Name := user_Name row\<rparr>
      else if c = ''username'' then dest\<lparr>user_Username := user_Username row\<rparr>
      else if c = ''email'' then dest\<lparr>user_Email := user_Email row\<rparr>
      else if c = ''password'' then dest\<lparr>user_Password := user_Password row\<rparr>
      else if c = ''avatar_url'' then dest\<lparr>user_AvatarUrl := user_AvatarUrl row\<rparr>
      else if c = ''active'' then dest\<lparr>user_Active := user_Active row\<rparr>
      else if c = ''preferences'' then dest\<lparr>user_Preferences := user_Preferences row\<rparr>
      else if c = ''created_at'' then dest\<lparr>user_CreatedAt := user_CreatedAt row\<rparr>
      else if c = ''updated_at'' then dest\<lparr>user_UpdatedAt := user_UpdatedAt row\<rparr>
      else dest)"

definition Select :: "string list \<Rightarrow> User \<Rightarrow> User" where
  "Select columns row = fold (scan_column row) columns zero_User"

text \<open>
  \<^verbatim>\<open>Where(...).First(&user)\<close> orders the rows that match by the primary key and takes
  the first: the row with the least \<open>id\<close> among them (the earliest in the table when
  several have it), or none.
\<close>

definition First :: "(User \<Rightarrow> bool) \<Rightarrow> User list \<Rightarrow> User option" where
  "First cond rows =
     (case filter cond rows of
        [] \<Rightarrow> None
      | r # rs \<Rightarrow> Some (fold (\<lambda>x m. if user_Id x < user_Id m then x else m) rs r))"

text \<open>
  The three lookups: the row found, or \<^verbatim>\<open>gorm.ErrRecordNotFound\<close> with \<^verbatim>\<open>user\<close>
  left at its zero value.
\<close>

definition userRepository_GetByEmailOrUsername :: "string \<Rightarrow> World \<Rightarrow> User \<times> error option" where
  "userRepository_GetByEmailOrUsername emailOrUsername w =
     (case First (\<lambda>u. user_Email u = emailOrUsername \<or> user_Username u = emailOrUsername)
             (user_table w) of
        None \<Rightarrow> (zero_User, Some NotFound)
      | Some row \<Rightarrow> (row, None))"

definition userRepository_GetById :: "string \<Rightarrow> World \<Rightarrow> User \<times> error option" where
  "userRepository_GetById ident w =
     (case First (\<lambda>u. user_Id u = ident) (user_table w) of
        None \<Rightarrow> (zero_User, Some NotFound)
      | Some row \<Rightarrow>
          (Select [''id'', ''name'', ''email'', ''avatar_url'', ''created_at'', ''updated_at''] row,
           None))"

definition userRepository_GetAllUsers :: "World \<Rightarrow> User list \<times> error option" where
  "userRepository_GetAllUsers w =
     (map (Select [''id'', ''name'', ''email'', ''avatar_url''])
        (filter (\<lambda>u. user_Active u = True) (user_table w)),
      None)"


section \<open>The session store and the authenticator of the design document\<close>

text \<open>
  Modelled from the spec: the implementation of \<^verbatim>\<open>models.SessionService\<close> and its
  repository are not in the sources at hand. Section 4.3 of the design document:
  \<open>Create\<close> inserts a new row under the id the caller chose and fails with
  \<open>Conflict\<close> when the id is taken; a row whose owner does not exist is refused
  where the foreign key is in force; the row is stamped with the time of its creation.
  Every operation fails while the table does not exist.
\<close>

definition SessionStore_Create :: "Session \<Rightarrow> World \<Rightarrow> error option \<times> World" where
  "SessionStore_Create session w =
     (case session_ddl w of
        None \<Rightarrow> (Some InternalError, w)
      | Some q \<Rightarrow>
          if Id session \<in> set (map Id (session_table w)) then (Some Conflict, w)
          else if cascade_enforced w \<and> UserId session \<notin> set (map user_Id (user_table w))
            then (Some InternalError, w)
          else
            (case time_Now w of
               (now, w') \<Rightarrow>
                 (None,
                  w'\<lparr>session_table :=
                       session_table w' @ [session\<lparr>CreatedAt := now, UpdatedAt := now\<rparr>]\<rparr>)))"

text \<open>
  Modelled from the spec: \<open>GetById\<close> fails with \<open>NotFound\<close> when the id is absent and
  does not look at the expiry.
\<close>

definition SessionStore_GetById :: "string \<Rightarrow> World \<Rightarrow> (error + Session) \<times> World" where
  "SessionStore_GetById ident w =
     (case session_ddl w of
        None \<Rightarrow> (Inl InternalError, w)
      | Some q \<Rightarrow>
          (case find (\<lambda>s. Id s = ident) (session_table w) of
             None \<Rightarrow> (Inl NotFound, w)
           | Some s \<Rightarrow> (Inr s, w)))"

text \<open>
  Modelled from the spec: \<open>Delete\<close> is idempotent; deleting an id that is not there is
  not an error.
\<close>

definition SessionStore_Delete :: "string \<Rightarrow> World \<Rightarrow> error option \<times> World" where
  "SessionStore_Delete ident w =
     (case session_ddl w of
        None \<Rightarrow> (Some InternalError, w)
      | Some q \<Rightarrow> (None, w\<lparr>session_table := filter (\<lambda>s. Id s \<noteq> ident) (session_table w)\<rparr>))"

text \<open>
  What the design document leaves to configuration and to the token codec: the check of
  a plaintext against a stored hash, the hash stored at registration, the token issued
  for a user id and a session id, and the generator of fresh ids.
\<close>

record Codec =
  verify_hash :: "string \<Rightarrow> string \<Rightarrow> bool"
  hash_password :: "string \<Rightarrow> string"
  issue_token :: "string \<Rightarrow> string \<Rightarrow> string"
  new_id :: "World \<Rightarrow> string"

text \<open>
  Modelled from the spec: the implementation of \<^verbatim>\<open>models.AuthService\<close> is not in the
  sources at hand. Sections 4.1 and 4.4: \<open>Login\<close> verifies the password of the user found
  by email or username, and a miss and a mismatch give the same failure; on success it
  generates a fresh session id and issues the token. It writes nothing.
\<close>

definition Authenticator_Login :: "Codec \<Rightarrow> LoginRequest \<Rightarrow> World \<Rightarrow> (error + LoginResponse) \<times> World" where
  "Authenticator_Login cd req w =
     (case userRepository_GetByEmailOrUsername (Email req) w of
        (u, Some err) \<Rightarrow> (Inl Unauthorized, w)
      | (u, None) \<Rightarrow>
          if verify_hash cd (user_Password u) (Password req) then
            (Inr \<lparr>resp_Token = issue_token cd (user_Id u) (new_id cd w),
                  resp_UserId = user_Id u,
                  resp_SessionId = new_id cd w\<rparr>, w)
          else (Inl Unauthorized, w))"

text \<open>
  Modelled from the spec: \<open>Register\<close> fails with \<open>InvalidInput\<close> on malformed fields
  (an empty email) and with \<open>Conflict\<close> when the identifier exists already; otherwise
  it stores the user with the hash of the password. It does not log the user in.
\<close>

definition Authenticator_Register :: "Codec \<Rightarrow> RegisterRequest \<Rightarrow> World \<Rightarrow> (error + RegisterResponse) \<times> World" where
  "Authenticator_Register cd req w =
     (if reg_Email req = [] then (Inl InvalidInput, w)
      else if reg_Email req \<in> set (map user_Email (user_table w))
            \<or> reg_Username req \<in> set (map user_Username (user_table w))
        then (Inl Conflict, w)
      else
        (Inr \<lparr>reg_UserId = new_id cd w\<rparr>,
         w\<lparr>user_table := user_table w @
             [zero_User\<lparr>user_Id := new_id cd w,
                        user_Username := reg_Username req,
                        user_Email := reg_Email req,
                        user_Password := hash_password cd (reg_Password req),
                        user_Active := True\<rparr>]\<rparr>))"

definition NewAuthController :: "Codec \<Rightarrow> AuthController" where
  "NewAuthController cd =
     \<lparr>AuthService_Login = Authenticator_Login cd,
      AuthService_Register = Authenticator_Register cd,
      SessionService_Create = SessionStore_Create,
      SessionService_GetById = SessionStore_GetById,
      SessionService_Delete = SessionStore_Delete\<rparr>"

section \<open>Referential integrity\<close>





section \<open>A concrete installation\<close>

text \<open>
  One user, alice, in a migrated sqlite database whose connection enforces foreign
  keys, with a session TTL of one hour; the codec is a toy (the stored hash is the
  reversed password).
\<close>

definition toy_codec :: Codec where
  "toy_codec =
     \<lparr>verify_hash = (\<lambda>h p. h = rev p),
      hash_password = rev,
      issue_token = (\<lambda>u s. u @ ''.'' @ s),
      new_id = (\<lambda>w. replicate (Suc (length (session_table w))) (CHR ''s''))\<rparr>"

definition alice :: User where
  "alice =
     \<lparr>user_Id = ''u1'', user_Name = ''Alice'', user_Username = ''alice'',
      user_Email = ''alice@example.org'', user_Password = ''drowssap'',
      user_AvatarUrl = ''a.png'', user_Active = True, user_Preferences = ''{}'',
      user_CreatedAt = 5, user_UpdatedAt = 6\<rparr>"

definition world0 :: World where
  "world0 =
     \<lparr>user_table = [alice], session_table = [], session_ddl = Some sqlite_query,
      exec_error = (\<lambda>query. None), foreign_keys = True,
      clock = (\<lambda>n. 1000 + 7 * int n), clock_reads = 0,
      config_Session_Expire = 3600, config_Database_Dialect = ''sqlite''\<rparr>"

definition alice_session :: Session where
  "alice_session =
     \<lparr>Id = ''s'', UserId = ''u1'', UserAgent = ''curl'', IpAddress = ''10.0.0.1'',
      ExpiresAt = 5000, CreatedAt = 900, UpdatedAt = 900\<rparr>"

definition alice_login :: LoginRequest where
  "alice_login = \<lparr>Email = ''alice'', Password = ''password''\<rparr>"

definition alice_response :: LoginResponse where
  "alice_response = \<lparr>resp_Token = ''u1.s'', resp_UserId = ''u1'', resp_SessionId = ''s''\<rparr>"

text \<open>A request as the middleware hands it on after it has accepted alice's token.\<close>

definition request :: "'b \<Rightarrow> 'b Ctx" where
  "request b =
     \<lparr>BodyParser = Inr b,
      Header = (\<lambda>h. if h = ''User-Agent'' then ''curl'' else []),
      IP = ''10.0.0.1'',
      Locals = (\<lambda>k. if k = ''session_id'' then IString ''s''
                    else if k = ''user_id'' then IString ''u1'' else INil)\<rparr>"

section \<open>Lookups by primary key order\<close>

lemma fold_least_same:
  "list_all (\<lambda>x. user_Id x = ident) rs \<Longrightarrow> user_Id r = ident \<Longrightarrow>
   fold (\<lambda>x m. if user_Id x < user_Id m then x else m) rs r = r"
proof (induction rs)
  case Nil
  show ?case by simp
next
  case (Cons a rs)
  then have "user_Id a = ident" "list_all (\<lambda>x. user_Id x = ident) rs" by simp_all
  with Cons.prems(2) have "\<not> user_Id a < user_Id r" by simp
  then have "fold (\<lambda>x m. if user_Id x < user_Id m then x else m) (a # rs) r =
      fold (\<lambda>x m. if user_Id x < user_Id m then x else m) rs r"
    by simp
  also have "\<dots> = r"
    by (rule Cons.IH [OF \<open>list_all (\<lambda>x. user_Id x = ident) rs\<close> Cons.prems(2)])
  finally show ?case .
qed

lemma find_as_filter:
  "find cond rows = (case filter cond rows of [] \<Rightarrow> None | r # rs \<Rightarrow> Some r)"
  by (induction rows) simp_all

lemma First_by_id: "First (\<lambda>u. user_Id u = ident) rows = find (\<lambda>u. user_Id u = ident) rows"
proof (cases "filter (\<lambda>u. user_Id u = ident) rows")
  case Nil
  then show ?thesis by (simp add: First_def find_as_filter)
next
  case (Cons r rs)
  have "list_all (\<lambda>u. user_Id u = ident) (filter (\<lambda>u. user_Id u = ident) rows)"
    by (simp add: list_all_iff)
  with Cons have "user_Id r = ident" "list_all (\<lambda>u. user_Id u = ident) rs"
    by simp_all
  from fold_least_same [OF this(2,1)] Cons show ?thesis
    by (simp add: First_def find_as_filter)
qed

lemma First_single: "First cond [r] = (if cond r then Some r else None)"
  by (simp add: First_def)

section \<open>Validation of a session\<close>

lemma ValidateSession_ids:
  assumes "Locals ctx ''session_id'' = IString sid" "sid \<noteq> []"
    "Locals ctx ''user_id'' = IString uid" "uid \<noteq> []"
  shows "ValidateSession ac ctx w =
     (case SessionService_GetById ac sid w of
        (Inl err, w1) \<Rightarrow>
          (Inr (JSON StatusNotFound (fiber_Map [(''error'', JString ''Session not found'')])), w1)
      | (Inr session, w1) \<Rightarrow>
          if UserId session \<noteq> uid then
            (Inr (JSON StatusUnauthorized (fiber_Map [(''error'', JString ''Invalid session'')])), w1)
          else if ExpiresAt session \<le> clock w1 (clock_reads w1) then
            (Inr (JSON StatusUnauthorized (fiber_Map [(''error'', JString ''Session expired'')])),
             snd (time_Now w1))
          else (Inr (JSON StatusOK (fiber_Map [(''valid'', JBool True)])), snd (time_Now w1)))"
  using assms
  by (simp add: ValidateSession_def IsSessionExpired_def time_Now_def split: prod.splits sum.splits)

lemma request_session_id: "Locals (request b) ''session_id'' = IString ''s''"
  by (simp add: request_def)

lemma request_user_id: "Locals (request b) ''user_id'' = IString ''u1''"
  by (simp add: request_def)

lemma request_body: "BodyParser (request b) = Inr b"
  by (simp add: request_def)

lemma GetById_world0:
  "SessionService_GetById (NewAuthController cd) sid (world0\<lparr>session_table := [s]\<rparr>) =
     (if Id s = sid then Inr s else Inl NotFound, world0\<lparr>session_table := [s]\<rparr>)"
  by (simp add: NewAuthController_def SessionStore_GetById_def world0_def)

lemma GetById_world0_empty:
  "SessionService_GetById (NewAuthController cd) sid world0 = (Inl NotFound, world0)"
  by (simp add: NewAuthController_def SessionStore_GetById_def world0_def)

text \<open>
  C1. A request that carries a session id and a claimed user id is checked in this
  order: when the session service does not return a session the answer is 404
  \<open>Session not found\<close>; otherwise, when the session belongs to another user, 401
  \<open>Invalid session\<close>; otherwise, when the instant read from the clock is at or past
  \<open>expires_at\<close>, 401 \<open>Session expired\<close>; otherwise 200 with \<open>valid: true\<close>. An answer of
  200 is given only when a session was returned, belongs to the claimed user, and expires
  after the instant read: a session that is still stored and has expired is never valid.
  This holds for every implementation of the session service.
\<close>

theorem ValidateSession_checks_in_order:
  assumes "Locals ctx ''session_id'' = IString sid" and "sid \<noteq> []"
    and "Locals ctx ''user_id'' = IString uid" and "uid \<noteq> []"
  shows "(SessionService_GetById ac sid w = (Inl e, w1) \<longrightarrow>
            fst (ValidateSession ac ctx w) =
              Inr (JSON StatusNotFound (fiber_Map [(''error'', JString ''Session not found'')])))
       \<and> (SessionService_GetById ac sid w = (Inr s, w1) \<and> UserId s \<noteq> uid \<longrightarrow>
            fst (ValidateSession ac ctx w) =
              Inr (JSON StatusUnauthorized (fiber_Map [(''error'', JString ''Invalid session'')])))
       \<and> (SessionService_GetById ac sid w = (Inr s, w1) \<and> UserId s = uid
            \<and> ExpiresAt s \<le> clock w1 (clock_reads w1) \<longrightarrow>
            fst (ValidateSession ac ctx w) =
              Inr (JSON StatusUnauthorized (fiber_Map [(''error'', JString ''Session expired'')])))
       \<and> (SessionService_GetById ac sid w = (Inr s, w1) \<and> UserId s = uid
            \<and> clock w1 (clock_reads w1) < ExpiresAt s \<longrightarrow>
            fst (ValidateSession ac ctx w) =
              Inr (JSON StatusOK (fiber_Map [(''valid'', JBool True)])))
       \<and> (fst (ValidateSession ac ctx w) = Inr r \<and> Status r = StatusOK \<longrightarrow>
            (\<exists>s' w'. SessionService_GetById ac sid w = (Inr s', w') \<and> UserId s' = uid
               \<and> clock w' (clock_reads w') < ExpiresAt s'))"
  unfolding ValidateSession_ids [OF assms]
  by (auto simp: JSON_def split: prod.splits sum.splits if_splits)

text \<open>
  The four outcomes on alice's request: no session stored, a session of another user, a
  session that expires at the instant read (1000), and a live session.
\<close>

theorem ValidateSession_checks_in_order_witness:
  "fst (ValidateSession (NewAuthController toy_codec) (request ()) world0) =
     Inr (JSON StatusNotFound (fiber_Map [(''error'', JString ''Session not found'')]))
   \<and> fst (ValidateSession (NewAuthController toy_codec) (request ())
        (world0\<lparr>session_table := [alice_session\<lparr>UserId := ''u2''\<rparr>]\<rparr>)) =
     Inr (JSON StatusUnauthorized (fiber_Map [(''error'', JString ''Invalid session'')]))
   \<and> fst (ValidateSession (NewAuthController toy_codec) (request ())
        (world0\<lparr>session_table := [alice_session\<lparr>ExpiresAt := 1000\<rparr>]\<rparr>)) =
     Inr (JSON StatusUnauthorized (fiber_Map [(''error'', JString ''Session expired'')]))
   \<and> fst (ValidateSession (NewAuthController toy_codec) (request ())
        (world0\<lparr>session_table := [alice_session]\<rparr>)) =
     Inr (JSON StatusOK (fiber_Map [(''valid'', JBool True)]))
   \<and> (\<exists>s' w'. SessionService_GetById (NewAuthController toy_codec) ''s''
                 (world0\<lparr>session_table := [alice_session]\<rparr>) = (Inr s', w')
        \<and> UserId s' = ''u1'' \<and> clock w' (clock_reads w') < ExpiresAt s')"
proof -
  have ne: "''s'' \<noteq> []" "''u1'' \<noteq> []" by simp_all
  note ord = ValidateSession_checks_in_order
    [OF request_session_id [of "()"] ne(1) request_user_id [of "()"] ne(2),
     where ac = "NewAuthController toy_codec"]
  have a: "fst (ValidateSession (NewAuthController toy_codec) (request ()) world0) =
     Inr (JSON StatusNotFound (fiber_Map [(''error'', JString ''Session not found'')]))"
    using ord [where w = world0 and e = NotFound and ?w1.0 = world0]
    by (simp add: GetById_world0_empty)
  have b: "fst (ValidateSession (NewAuthController toy_codec) (request ())
        (world0\<lparr>session_table := [alice_session\<lparr>UserId := ''u2''\<rparr>]\<rparr>)) =
     Inr (JSON StatusUnauthorized (fiber_Map [(''error'', JString ''Invalid session'')]))"
    using ord [where w = "world0\<lparr>session_table := [alice_session\<lparr>UserId := ''u2''\<rparr>]\<rparr>"
        and s = "alice_session\<lparr>UserId := ''u2''\<rparr>"
        and ?w1.0 = "world0\<lparr>session_table := [alice_session\<lparr>UserId := ''u2''\<rparr>]\<rparr>"]
    by (simp add: GetById_world0 alice_session_def)
  have c: "fst (ValidateSession (NewAuthController toy_codec) (request ())
        (world0\<lparr>session_table := [alice_session\<lparr>ExpiresAt := 1000\<rparr>]\<rparr>)) =
     Inr (JSON StatusUnauthorized (fiber_Map [(''error'', JString ''Session expired'')]))"
    using ord [where w = "world0\<lparr>session_table := [alice_session\<lparr>ExpiresAt := 1000\<rparr>]\<rparr>"
        and s = "alice_session\<lparr>ExpiresAt := 1000\<rparr>"
        and ?w1.0 = "world0\<lparr>session_table := [alice_session\<lparr>ExpiresAt := 1000\<rparr>]\<rparr>"]
    by (simp add: GetById_world0 alice_session_def) (simp add: world0_def)
  have d: "fst (ValidateSession (NewAuthController toy_codec) (request ())
        (world0\<lparr>session_table := [alice_session]\<rparr>)) =
     Inr (JSON StatusOK (fiber_Map [(''valid'', JBool True)]))"
    using ord [where w = "world0\<lparr>session_table := [alice_session]\<rparr>"
        and s = "alice_session"
        and ?w1.0 = "world0\<lparr>session_table := [alice_session]\<rparr>"]
    by (simp add: GetById_world0 alice_session_def) (simp add: world0_def)
  have e: "\<exists>s' w'. SessionService_GetById (NewAuthController toy_codec) ''s''
                 (world0\<lparr>session_table := [alice_session]\<rparr>) = (Inr s', w')
        \<and> UserId s' = ''u1'' \<and> clock w' (clock_reads w') < ExpiresAt s'"
    using ord [where w = "world0\<lparr>session_table := [alice_session]\<rparr>"
        and r = "JSON StatusOK (fiber_Map [(''valid'', JBool True)])"] d
    by (simp add: JSON_def)
  from a b c d e show ?thesis by blast
qed

text \<open>
  C9. When the middleware did not attach a non-empty string under \<open>session_id\<close>, or did
  not attach one under \<open>user_id\<close>, the handler answers 401 \<open>Invalid session\<close>: it
  returns a response (it does not panic), and it leaves the world as it found it, so no
  service was called with the missing value.
\<close>

theorem ValidateSession_missing_locals:
  "\<not> attached (Locals ctx ''session_id'') \<or> \<not> attached (Locals ctx ''user_id'') \<Longrightarrow>
   ValidateSession ac ctx w =
     (Inr (JSON StatusUnauthorized (fiber_Map [(''error'', JString ''Invalid session'')])), w)"
  by (cases "Locals ctx ''session_id''"; cases "Locals ctx ''user_id''")
     (auto simp: ValidateSession_def attached_def)

text \<open>A request with nothing attached, and one whose user id is not a string.\<close>

theorem ValidateSession_missing_locals_witness:
  "\<not> attached (Locals ((request ())\<lparr>Locals := (\<lambda>k. INil)\<rparr>) ''session_id'')
   \<and> ValidateSession (NewAuthController toy_codec) ((request ())\<lparr>Locals := (\<lambda>k. INil)\<rparr>) world0 =
       (Inr (JSON StatusUnauthorized (fiber_Map [(''error'', JString ''Invalid session'')])), world0)
   \<and> \<not> attached (Locals ((request ())\<lparr>Locals := (\<lambda>k. if k = ''session_id'' then IString ''s'' else IOther)\<rparr>)
          ''user_id'')
   \<and> ValidateSession (NewAuthController toy_codec)
        ((request ())\<lparr>Locals := (\<lambda>k. if k = ''session_id'' then IString ''s'' else IOther)\<rparr>) world0 =
       (Inr (JSON StatusUnauthorized (fiber_Map [(''error'', JString ''Invalid session'')])), world0)"
proof -
  have a: "\<not> attached (Locals ((request ())\<lparr>Locals := (\<lambda>k. INil)\<rparr>) ''session_id'')"
    by (simp add: attached_def)
  have b: "\<not> attached (Locals ((request ())\<lparr>Locals := (\<lambda>k. if k = ''session_id'' then IString ''s'' else IOther)\<rparr>)
          ''user_id'')"
    by (simp add: attached_def)
  show ?thesis
    using a b ValidateSession_missing_locals [OF disjI1 [OF a], of "NewAuthController toy_codec" world0]
      ValidateSession_missing_locals [OF disjI2 [OF b], of "NewAuthController toy_codec" world0]
    by simp
qed

text \<open>
  C8. Two runs of the handler on the same request give the same response when the
  sessions their session services return differ only in \<open>user_agent\<close> and
  \<open>ip_address\<close> and the clock gives both the same instant: the two attributes have no
  influence on the outcome.
\<close>

theorem ValidateSession_noninterference:
  assumes "SessionService_GetById ac sid w = (Inr s, w1)"
    and "SessionService_GetById ac' sid w' = (Inr s', w1')"
    and "audit_erased s = audit_erased s'"
    and "clock w1 (clock_reads w1) = clock w1' (clock_reads w1')"
    and "Locals ctx ''session_id'' = IString sid"
  shows "fst (ValidateSession ac ctx w) = fst (ValidateSession ac' ctx w')"
proof -
  from assms(3) have "UserId s = UserId s'" "ExpiresAt s = ExpiresAt s'"
    by (auto simp: audit_erased_def dest: arg_cong [where f = UserId] arg_cong [where f = ExpiresAt])
  with assms show ?thesis
    by (simp add: ValidateSession_def IsSessionExpired_def time_Now_def split: prod.splits)
qed

text \<open>Alice's session stored with two different user agents and addresses.\<close>

theorem ValidateSession_noninterference_witness:
  "fst (ValidateSession (NewAuthController toy_codec) (request ())
          (world0\<lparr>session_table := [alice_session]\<rparr>)) =
   fst (ValidateSession (NewAuthController toy_codec) (request ())
          (world0\<lparr>session_table :=
             [alice_session\<lparr>UserAgent := ''Mozilla'', IpAddress := ''192.168.0.9''\<rparr>]\<rparr>))"
proof -
  have a: "SessionService_GetById (NewAuthController toy_codec) ''s''
             (world0\<lparr>session_table := [alice_session]\<rparr>) =
           (Inr alice_session, world0\<lparr>session_table := [alice_session]\<rparr>)"
    by (simp add: GetById_world0 alice_session_def)
  have b: "SessionService_GetById (NewAuthController toy_codec) ''s''
             (world0\<lparr>session_table :=
                [alice_session\<lparr>UserAgent := ''Mozilla'', IpAddress := ''192.168.0.9''\<rparr>]\<rparr>) =
           (Inr (alice_session\<lparr>UserAgent := ''Mozilla'', IpAddress := ''192.168.0.9''\<rparr>),
            world0\<lparr>session_table :=
                [alice_session\<lparr>UserAgent := ''Mozilla'', IpAddress := ''192.168.0.9''\<rparr>]\<rparr>)"
    by (simp add: GetById_world0 alice_session_def)
  have c: "audit_erased alice_session =
           audit_erased (alice_session\<lparr>UserAgent := ''Mozilla'', IpAddress := ''192.168.0.9''\<rparr>)"
    by (simp add: audit_erased_def)
  have d: "clock (world0\<lparr>session_table := [alice_session]\<rparr>)
             (clock_reads (world0\<lparr>session_table := [alice_session]\<rparr>)) =
           clock (world0\<lparr>session_table :=
                [alice_session\<lparr>UserAgent := ''Mozilla'', IpAddress := ''192.168.0.9''\<rparr>]\<rparr>)
             (clock_reads (world0\<lparr>session_table :=
                [alice_session\<lparr>UserAgent := ''Mozilla'', IpAddress := ''192.168.0.9''\<rparr>]\<rparr>))"
    by simp
  show ?thesis
    by (rule ValidateSession_noninterference [OF a b c d request_session_id])
qed

section \<open>Login\<close>


lemma alice_login_ok:
  "clock_reads w = 0 \<Longrightarrow> user_table w = [alice] \<Longrightarrow> session_table w = [] \<Longrightarrow>
   AuthService_Login (NewAuthController toy_codec) alice_login w = (Inr alice_response, w)"
  by (simp add: NewAuthController_def Authenticator_Login_def
      userRepository_GetByEmailOrUsername_def First_single alice_def alice_login_def
      alice_response_def toy_codec_def)

text \<open>
  C2. When \<^verbatim>\<open>AuthService.Login\<close> fails, the handler answers 401 \<open>Invalid credentials\<close>
  and leaves the world as the login service left it. The answer and the world are the
  same whatever \<open>SessionService.Create\<close> would do, so it was not called; the session
  table is as it was before the request whenever the failed verification itself did not
  touch it.
\<close>

theorem Login_invalid_credentials:
  assumes "BodyParser ctx = Inr req" and "AuthService_Login ac req w = (Inl e, w1)"
  shows "Login (ac\<lparr>SessionService_Create := create\<rparr>) ctx w =
           (Inr (JSON StatusUnauthorized (fiber_Map [(''error'', JString ''Invalid credentials'')])), w1)
       \<and> (session_table w1 = session_table w \<longrightarrow>
            session_table (snd (Login (ac\<lparr>SessionService_Create := create\<rparr>) ctx w)) = session_table w)"
  using assms by (simp add: Login_def)

text \<open>
  Alice's identifier with a wrong password: the authenticator of the design document
  refuses it, and the session table stays empty.
\<close>

theorem Login_invalid_credentials_witness:
  "Login ((NewAuthController toy_codec)\<lparr>SessionService_Create := SessionStore_Create\<rparr>)
      (request \<lparr>Email = ''alice'', Password = ''guess''\<rparr>) world0 =
     (Inr (JSON StatusUnauthorized (fiber_Map [(''error'', JString ''Invalid credentials'')])), world0)
   \<and> session_table
        (snd (Login ((NewAuthController toy_codec)\<lparr>SessionService_Create := SessionStore_Create\<rparr>)
               (request \<lparr>Email = ''alice'', Password = ''guess''\<rparr>) world0)) = []"
proof -
  have a: "AuthService_Login (NewAuthController toy_codec) \<lparr>Email = ''alice'', Password = ''guess''\<rparr>
             world0 = (Inl Unauthorized, world0)"
    by (simp add: NewAuthController_def Authenticator_Login_def
        userRepository_GetByEmailOrUsername_def First_single world0_def alice_def toy_codec_def)
  have b: "session_table world0 = []"
    by (simp add: world0_def)
  show ?thesis
    using Login_invalid_credentials [OF request_body a, of SessionStore_Create] b by simp
qed

text \<open>
  C3. When the credentials were accepted and \<^verbatim>\<open>SessionService.Create\<close> fails for the
  session the handler built, the handler answers 500 \<open>Internal server error\<close>; the body
  of that answer is not the login response, so the token the login service issued does
  not reach the caller.
\<close>

theorem Login_session_not_persisted:
  assumes "BodyParser ctx = Inr req" and "AuthService_Login ac req w = (Inr lr, w1)"
    and "SessionService_Create ac
           (Login_session lr ctx (clock w1 (clock_reads w1)) (config_Session_Expire w1))
           (snd (time_Now w1)) = (Some e, w3)"
  shows "Login ac ctx w =
           (Inr (JSON StatusInternalServerError
                  (fiber_Map [(''error'', JString ''Internal server error'')])), w3)
       \<and> Body (JSON StatusInternalServerError
                  (fiber_Map [(''error'', JString ''Internal server error'')])) \<noteq> JSON_LoginResponse lr"
  using assms by (simp add: Login_def time_Now_def JSON_def)

text \<open>Alice logs in with her password while the session table does not exist.\<close>

theorem Login_session_not_persisted_witness:
  "Login (NewAuthController toy_codec) (request alice_login) (world0\<lparr>session_ddl := None\<rparr>) =
     (Inr (JSON StatusInternalServerError
            (fiber_Map [(''error'', JString ''Internal server error'')])),
      world0\<lparr>session_ddl := None, clock_reads := 1\<rparr>)"
proof -
  have a: "AuthService_Login (NewAuthController toy_codec) alice_login
             (world0\<lparr>session_ddl := None\<rparr>) = (Inr alice_response, world0\<lparr>session_ddl := None\<rparr>)"
    by (rule alice_login_ok) (simp_all add: world0_def)
  have b: "SessionService_Create (NewAuthController toy_codec)
             (Login_session alice_response (request alice_login)
                (clock (world0\<lparr>session_ddl := None\<rparr>) (clock_reads (world0\<lparr>session_ddl := None\<rparr>)))
                (config_Session_Expire (world0\<lparr>session_ddl := None\<rparr>)))
             (snd (time_Now (world0\<lparr>session_ddl := None\<rparr>))) =
           (Some InternalError, world0\<lparr>session_ddl := None, clock_reads := 1\<rparr>)"
    by (simp add: NewAuthController_def SessionStore_Create_def time_Now_def world0_def)
  show ?thesis
    using Login_session_not_persisted [OF request_body a b] by simp
qed

lemma sint_Second_mult:
  assumes "- (2 ^ 63) \<le> 1000000000 * n" and "1000000000 * n < 2 ^ 63"
  shows "sint (Second * Duration_of n) = 1000000000 * n"
proof -
  have "Second * Duration_of n = (word_of_int (1000000000 * n) :: 64 word)"
    by (simp add: Second_def Duration_of_def)
  moreover have "sint (word_of_int (1000000000 * n) :: 64 word) =
      signed_take_bit 63 (1000000000 * n)"
    by (simp only: sint_sbintrunc') simp
  moreover have "signed_take_bit 63 (1000000000 * n) = 1000000000 * n"
    by (rule signed_take_bit_int_eq_self [OF assms])
  ultimately show ?thesis by (simp only:)
qed

lemma SessionStore_Create_ok:
  assumes "SessionStore_Create s w = (None, w')"
  shows "w' = w\<lparr>clock_reads := Suc (clock_reads w),
                 session_table := session_table w @
                   [s\<lparr>CreatedAt := clock w (clock_reads w), UpdatedAt := clock w (clock_reads w)\<rparr>]\<rparr>"
  using assms
  by (auto simp: SessionStore_Create_def time_Now_def split: option.splits if_splits)

lemma Login_ok:
  assumes "BodyParser ctx = Inr req" and "AuthService_Login ac req w = (Inr lr, w1)"
    and "Login ac ctx w = (Inr r, w')" and "Status r = StatusOK"
  shows "SessionService_Create ac
           (Login_session lr ctx (clock w1 (clock_reads w1)) (config_Session_Expire w1))
           (snd (time_Now w1)) = (None, w')"
  using assms
  by (auto simp: Login_def time_Now_def JSON_def Let_def split: prod.splits option.splits)

lemma sqlite_query_cascade: "contains sqlite_query fk_clause"
  by (simp add: sqlite_query_def fk_clause_def tab_def nl_def)


lemma on_delete_cascade_world0:
  "session_ddl w = session_ddl world0 \<Longrightarrow> on_delete_cascade w"
  by (simp add: on_delete_cascade_def world0_def sqlite_query_cascade)

lemma alice_Login_world0:
  "config_Session_Expire w = expire \<Longrightarrow> w = world0\<lparr>config_Session_Expire := expire\<rparr> \<Longrightarrow>
   Login (NewAuthController toy_codec) (request alice_login) w =
     (Inr (JSON StatusOK (JSON_LoginResponse alice_response)),
      w\<lparr>clock_reads := 2,
        session_table :=
          [(Login_session alice_response (request alice_login) 1000 expire)
             \<lparr>CreatedAt := 1007, UpdatedAt := 1007\<rparr>]\<rparr>)"
proof -
  assume e: "config_Session_Expire w = expire" and w: "w = world0\<lparr>config_Session_Expire := expire\<rparr>"
  have a: "AuthService_Login (NewAuthController toy_codec) alice_login w = (Inr alice_response, w)"
    by (rule alice_login_ok) (simp_all add: w world0_def)
  have c: "on_delete_cascade (w\<lparr>clock_reads := Suc 0\<rparr>)"
    by (rule on_delete_cascade_world0) (simp add: w)
  have "SessionStore_Create (Login_session alice_response (request alice_login) 1000 expire)
          (w\<lparr>clock_reads := Suc 0\<rparr>) =
        (None, w\<lparr>clock_reads := 2,
                 session_table :=
                   [(Login_session alice_response (request alice_login) 1000 expire)
                      \<lparr>CreatedAt := 1007, UpdatedAt := 1007\<rparr>]\<rparr>)"
    unfolding SessionStore_Create_def
    by (simp add: c cascade_enforced_def)
       (simp add: w world0_def time_Now_def Login_session_def alice_response_def alice_def)
  moreover have "clock w (clock_reads w) = 1000" "clock_reads w = 0"
    by (simp_all add: w world0_def)
  ultimately show ?thesis
    using a e by (simp add: Login_def request_body time_Now_def NewAuthController_def)
qed

text \<open>
  C4, as amended. Take a login that succeeds against the session store of the design
  document, with a configured TTL whose nanoseconds fit the signed 64-bit
  \<^verbatim>\<open>time.Duration\<close>. The row it creates expires exactly TTL seconds after the instant
  the handler read from the clock. The store stamps \<open>created_at\<close> at its own, later read
  of the clock, so \<open>expires_at\<close> is \<open>created_at\<close> plus the TTL less the time between the
  two reads.
\<close>

theorem Login_expiry:
  assumes "BodyParser ctx = Inr req" and "AuthService_Login ac req w = (Inr lr, w1)"
    and "SessionService_Create ac = SessionStore_Create"
    and "Login ac ctx w = (Inr r, w')" and "Status r = StatusOK"
    and "- (2 ^ 63) \<le> 1000000000 * config_Session_Expire w1"
    and "1000000000 * config_Session_Expire w1 < 2 ^ 63"
  shows "\<exists>s. session_table w' = session_table w1 @ [s]
           \<and> Id s = resp_SessionId lr \<and> UserId s = resp_UserId lr
           \<and> ExpiresAt s = clock w1 (clock_reads w1) + 1000000000 * config_Session_Expire w1
           \<and> CreatedAt s = clock w1 (Suc (clock_reads w1))
           \<and> ExpiresAt s = CreatedAt s + 1000000000 * config_Session_Expire w1
                - (clock w1 (Suc (clock_reads w1)) - clock w1 (clock_reads w1))"
proof -
  have ttl: "sint (Second * Duration_of (config_Session_Expire w1)) =
      1000000000 * config_Session_Expire w1"
    by (rule sint_Second_mult [OF assms(6,7)])
  have "SessionStore_Create
           (Login_session lr ctx (clock w1 (clock_reads w1)) (config_Session_Expire w1))
           (snd (time_Now w1)) = (None, w')"
    using Login_ok [OF assms(1,2,4,5)] assms(3) by simp
  from SessionStore_Create_ok [OF this] show ?thesis
    by (simp add: time_Now_def Login_session_def new_Session_def Time_Add_def ttl)
qed

text \<open>
  Alice logs in with a TTL of one hour; the handler reads the clock at 1000 and the store
  at 1007.
\<close>

theorem Login_expiry_witness:
  "\<exists>s. session_table (snd (Login (NewAuthController toy_codec) (request alice_login) world0)) =
          session_table world0 @ [s]
       \<and> Id s = ''s'' \<and> UserId s = ''u1''
       \<and> ExpiresAt s = 1000 + 1000000000 * 3600
       \<and> CreatedAt s = 1007
       \<and> ExpiresAt s = CreatedAt s + 1000000000 * 3600 - (1007 - 1000)"
proof -
  have e: "config_Session_Expire world0 = 3600"
    by (simp add: world0_def)
  have w: "world0 = world0\<lparr>config_Session_Expire := 3600\<rparr>"
    by (simp add: world0_def)
  note run = alice_Login_world0 [OF e w]
  have a: "AuthService_Login (NewAuthController toy_codec) alice_login world0 =
             (Inr alice_response, world0)"
    by (rule alice_login_ok) (simp_all add: world0_def)
  have c: "SessionService_Create (NewAuthController toy_codec) = SessionStore_Create"
    by (simp add: NewAuthController_def)
  have s: "Status (JSON StatusOK (JSON_LoginResponse alice_response)) = StatusOK"
    by (simp add: JSON_def)
  have lo: "- (2 ^ 63) \<le> 1000000000 * config_Session_Expire world0"
    and hi: "1000000000 * config_Session_Expire world0 < 2 ^ 63"
    by (simp_all add: e)
  show ?thesis
    using Login_expiry [OF request_body a c run s lo hi]
    by (simp add: run alice_response_def) (simp add: world0_def)
qed

text \<open>
  The claim as stated fails for a TTL of 9223372037 seconds: its nanoseconds exceed
  \<open>2\<^sup>6\<^sup>3 - 1\<close>, the product wraps, and the row alice's login creates at 1000 (stamped
  at 1007) expires some 292 years earlier.
\<close>

theorem Login_expiry_counterexample:
  "Login (NewAuthController toy_codec) (request alice_login)
     (world0\<lparr>config_Session_Expire := 9223372037\<rparr>) =
     (Inr (JSON StatusOK (JSON_LoginResponse alice_response)),
      world0\<lparr>config_Session_Expire := 9223372037, clock_reads := 2,
        session_table :=
          [\<lparr>Id = ''s'', UserId = ''u1'', UserAgent = ''curl'', IpAddress = ''10.0.0.1'',
            ExpiresAt = 1000 - 9223372036709551616, CreatedAt = 1007, UpdatedAt = 1007\<rparr>]\<rparr>)"
proof -
  have e: "config_Session_Expire (world0\<lparr>config_Session_Expire := 9223372037\<rparr>) = 9223372037"
    by simp
  have "Login_session alice_response (request alice_login) 1000 9223372037
          \<lparr>CreatedAt := 1007, UpdatedAt := 1007\<rparr> =
        \<lparr>Id = ''s'', UserId = ''u1'', UserAgent = ''curl'', IpAddress = ''10.0.0.1'',
          ExpiresAt = 1000 - 9223372036709551616, CreatedAt = 1007, UpdatedAt = 1007\<rparr>"
    by (simp add: Login_session_def new_Session_def request_def Time_Add_def Second_def
        Duration_of_def alice_response_def)
  with alice_Login_world0 [OF e refl] show ?thesis
    by simp
qed

section \<open>Logout\<close>

text \<open>
  C6. With the session store of the design document, a logout whose request carries the
  two ids as strings answers 200 \<open>Logged out successfully\<close> whether or not a session is
  stored under the id, as long as the session table exists. After a logout that answered
  200 the id is no longer stored, and the same logout run again gives the same answer and
  changes nothing.
\<close>

theorem Logout_idempotent:
  assumes "SessionService_Delete ac = SessionStore_Delete"
    and "Locals ctx ''user_id'' = IString uid" and "Locals ctx ''session_id'' = IString sid"
  shows "(session_ddl w \<noteq> None \<longrightarrow>
            fst (Logout ac ctx w) =
              Inr (JSON StatusOK (fiber_Map [(''message'', JString ''Logged out successfully'')])))
       \<and> (Logout ac ctx w = (Inr r, w1) \<and> Status r = StatusOK \<longrightarrow>
            Logout ac ctx w1 = (Inr r, w1) \<and> sid \<notin> set (map Id (session_table w1)))"
  using assms
  by (auto simp: Logout_def SessionStore_Delete_def JSON_def split: option.splits)

text \<open>Alice logs out of her stored session, and then once more.\<close>

theorem Logout_idempotent_witness:
  "Logout (NewAuthController toy_codec) (request ()) (world0\<lparr>session_table := [alice_session]\<rparr>) =
     (Inr (JSON StatusOK (fiber_Map [(''message'', JString ''Logged out successfully'')])), world0)
   \<and> Logout (NewAuthController toy_codec) (request ()) world0 =
     (Inr (JSON StatusOK (fiber_Map [(''message'', JString ''Logged out successfully'')])), world0)
   \<and> ''s'' \<notin> set (map Id (session_table world0))"
proof -
  have d: "SessionService_Delete (NewAuthController toy_codec) = SessionStore_Delete"
    by (simp add: NewAuthController_def)
  have first: "Logout (NewAuthController toy_codec) (request ())
                 (world0\<lparr>session_table := [alice_session]\<rparr>) =
     (Inr (JSON StatusOK (fiber_Map [(''message'', JString ''Logged out successfully'')])), world0)"
    by (simp add: Logout_def request_def NewAuthController_def SessionStore_Delete_def
        alice_session_def world0_def)
  have ddl: "session_ddl (world0\<lparr>session_table := [alice_session]\<rparr>) \<noteq> None"
    by (simp add: world0_def)
  have ok: "Status (JSON StatusOK (fiber_Map [(''message'', JString ''Logged out successfully'')])) =
      StatusOK"
    by (simp add: JSON_def)
  show ?thesis
    using Logout_idempotent [OF d request_user_id [of "()"] request_session_id [of "()"],
        where w = "world0\<lparr>session_table := [alice_session]\<rparr>"
          and r = "JSON StatusOK (fiber_Map [(''message'', JString ''Logged out successfully'')])"
          and ?w1.0 = world0]
      first ddl ok
    by simp
qed

section \<open>Registration\<close>

text \<open>
  C7, as amended. The handler answers 400 \<open>Invalid request\<close> exactly when the body does
  not parse. Once the body has parsed, every error of \<^verbatim>\<open>AuthService.Register\<close>,
  whatever its kind, is answered 409 \<open>User already exists\<close>, and success is answered 201:
  a parsed request with malformed fields is never answered 400.
\<close>

theorem Register_failure_kinds:
  "(BodyParser ctx = Inl e \<longrightarrow>
      Register ac ctx w =
        (Inr (JSON StatusBadRequest (fiber_Map [(''error'', JString ''Invalid request'')])), w))
 \<and> (BodyParser ctx = Inr req \<and> AuthService_Register ac req w = (Inl e', w1) \<longrightarrow>
      Register ac ctx w =
        (Inr (JSON StatusConflict (fiber_Map [(''error'', JString ''User already exists'')])), w1))
 \<and> (BodyParser ctx = Inr req \<and> AuthService_Register ac req w = (Inr rr, w1) \<longrightarrow>
      Register ac ctx w =
        (Inr (JSON StatusCreated (fiber_Map [(''message'', JString ''User registered successfully'')])), w1))"
  by (simp add: Register_def)

text \<open>A body that does not parse, alice's email registered again, and a new user.\<close>

theorem Register_failure_kinds_witness:
  "Register (NewAuthController toy_codec)
      ((request \<lparr>reg_Email = [], reg_Username = [], reg_Password = []\<rparr>)
         \<lparr>BodyParser := Inl (Other ''unexpected end of JSON input'')\<rparr>) world0 =
     (Inr (JSON StatusBadRequest (fiber_Map [(''error'', JString ''Invalid request'')])), world0)
   \<and> Register (NewAuthController toy_codec)
      (request \<lparr>reg_Email = ''alice@example.org'', reg_Username = ''al'', reg_Password = ''pw''\<rparr>)
      world0 =
     (Inr (JSON StatusConflict (fiber_Map [(''error'', JString ''User already exists'')])), world0)
   \<and> fst (Register (NewAuthController toy_codec)
      (request \<lparr>reg_Email = ''bob@example.org'', reg_Username = ''bob'', reg_Password = ''pw''\<rparr>)
      world0) =
     Inr (JSON StatusCreated (fiber_Map [(''message'', JString ''User registered successfully'')]))"
proof -
  have a: "BodyParser ((request \<lparr>reg_Email = [], reg_Username = [], reg_Password = []\<rparr>)
         \<lparr>BodyParser := Inl (Other ''unexpected end of JSON input'')\<rparr>) =
       Inl (Other ''unexpected end of JSON input'')"
    by simp
  have b: "AuthService_Register (NewAuthController toy_codec)
        \<lparr>reg_Email = ''alice@example.org'', reg_Username = ''al'', reg_Password = ''pw''\<rparr> world0 =
      (Inl Conflict, world0)"
    by (simp add: NewAuthController_def Authenticator_Register_def world0_def alice_def)
  have c: "AuthService_Register (NewAuthController toy_codec)
        \<lparr>reg_Email = ''bob@example.org'', reg_Username = ''bob'', reg_Password = ''pw''\<rparr> world0 =
      (Inr \<lparr>reg_UserId = ''s''\<rparr>,
       snd (AuthService_Register (NewAuthController toy_codec)
        \<lparr>reg_Email = ''bob@example.org'', reg_Username = ''bob'', reg_Password = ''pw''\<rparr> world0))"
    by (simp add: NewAuthController_def Authenticator_Register_def world0_def alice_def toy_codec_def)
  show ?thesis
    using Register_failure_kinds
        [where ctx = "(request \<lparr>reg_Email = [], reg_Username = [], reg_Password = []\<rparr>)
           \<lparr>BodyParser := Inl (Other ''unexpected end of JSON input'')\<rparr>"
         and e = "Other ''unexpected end of JSON input''"
         and ac = "NewAuthController toy_codec" and w = world0]
      Register_failure_kinds
        [where ctx = "request \<lparr>reg_Email = ''alice@example.org'', reg_Username = ''al'',
           reg_Password = ''pw''\<rparr>"
         and req = "\<lparr>reg_Email = ''alice@example.org'', reg_Username = ''al'', reg_Password = ''pw''\<rparr>"
         and e' = Conflict and ?w1.0 = world0
         and ac = "NewAuthController toy_codec" and w = world0]
      Register_failure_kinds
        [where ctx = "request \<lparr>reg_Email = ''bob@example.org'', reg_Username = ''bob'',
           reg_Password = ''pw''\<rparr>"
         and req = "\<lparr>reg_Email = ''bob@example.org'', reg_Username = ''bob'', reg_Password = ''pw''\<rparr>"
         and rr = "\<lparr>reg_UserId = ''s''\<rparr>"
         and ?w1.0 = "snd (AuthService_Register (NewAuthController toy_codec)
            \<lparr>reg_Email = ''bob@example.org'', reg_Username = ''bob'', reg_Password = ''pw''\<rparr> world0)"
         and ac = "NewAuthController toy_codec" and w = world0]
      a b c
    by (simp add: request_body)
qed

text \<open>
  The claim as stated fails for a registration with an empty email and a user name that
  is not taken: the body parses, the authenticator of the design document refuses the
  fields with \<open>InvalidInput\<close>, and the handler answers 409 \<open>User already exists\<close>, not
  400.
\<close>

theorem Register_empty_email_counterexample:
  "Register (NewAuthController toy_codec)
      (request \<lparr>reg_Email = [], reg_Username = ''bob'', reg_Password = ''secret''\<rparr>) world0 =
     (Inr (JSON StatusConflict (fiber_Map [(''error'', JString ''User already exists'')])), world0)
   \<and> AuthService_Register (NewAuthController toy_codec)
        \<lparr>reg_Email = [], reg_Username = ''bob'', reg_Password = ''secret''\<rparr> world0 =
       (Inl InvalidInput, world0)
   \<and> ''bob'' \<notin> set (map user_Username (user_table world0))"
  by (simp add: Register_def NewAuthController_def Authenticator_Register_def request_def
      world0_def alice_def)

section \<open>The user repository\<close>

lemma Select_GetById:
  "Select [''id'', ''name'', ''email'', ''avatar_url'', ''created_at'', ''updated_at''] row =
     zero_User\<lparr>user_Id := user_Id row, user_Name := user_Name row, user_Email := user_Email row,
               user_AvatarUrl := user_AvatarUrl row, user_CreatedAt := user_CreatedAt row,
               user_UpdatedAt := user_UpdatedAt row\<rparr>"
  by (simp add: Select_def scan_column_def)

lemma Select_GetAllUsers:
  "Select [''id'', ''name'', ''email'', ''avatar_url''] row =
     zero_User\<lparr>user_Id := user_Id row, user_Name := user_Name row, user_Email := user_Email row,
               user_AvatarUrl := user_AvatarUrl row\<rparr>"
  by (simp add: Select_def scan_column_def)

text \<open>
  C10, as amended. The user \<^verbatim>\<open>GetById\<close> returns has an empty password hash, an empty
  user name, empty preferences and a false active flag; when a row has the id, the result
  is the zero user with the id, name, email, avatar url and the two timestamps of that
  row. Every user \<^verbatim>\<open>GetAllUsers\<close> returns is the zero user with the id, name, email and
  avatar url of a stored row whose \<open>active\<close> column is true; its password hash is empty
  and its own active flag, which is not among the selected columns, is false.
\<close>

theorem userRepository_projection:
  "(user_Password (fst (userRepository_GetById ident w)) = []
      \<and> user_Username (fst (userRepository_GetById ident w)) = []
      \<and> user_Preferences (fst (userRepository_GetById ident w)) = []
      \<and> user_Active (fst (userRepository_GetById ident w)) = False)
   \<and> (find (\<lambda>u. user_Id u = ident) (user_table w) = Some row \<longrightarrow>
        userRepository_GetById ident w =
          (zero_User\<lparr>user_Id := user_Id row, user_Name := user_Name row,
                     user_Email := user_Email row, user_AvatarUrl := user_AvatarUrl row,
                     user_CreatedAt := user_CreatedAt row,
                     user_UpdatedAt := user_UpdatedAt row\<rparr>, None))
   \<and> (\<forall>u \<in> set (fst (userRepository_GetAllUsers w)).
        user_Password u = [] \<and> user_Active u = False
        \<and> (\<exists>row \<in> set (user_table w). user_Active row = True
              \<and> u = zero_User\<lparr>user_Id := user_Id row, user_Name := user_Name row,
                               user_Email := user_Email row,
                               user_AvatarUrl := user_AvatarUrl row\<rparr>))"
  by (auto simp: userRepository_GetById_def userRepository_GetAllUsers_def First_by_id
      Select_GetById Select_GetAllUsers zero_User_def split: option.splits)

text \<open>Alice looked up by her id, and the first user of the list of all users.\<close>

theorem userRepository_projection_witness:
  "userRepository_GetById ''u1'' world0 =
     (\<lparr>user_Id = ''u1'', user_Name = ''Alice'', user_Username = [],
       user_Email = ''alice@example.org'', user_Password = [], user_AvatarUrl = ''a.png'',
       user_Active = False, user_Preferences = [], user_CreatedAt = 5,
       user_UpdatedAt = 6\<rparr>, None)
   \<and> user_Password (hd (fst (userRepository_GetAllUsers world0))) = []
   \<and> user_Active (hd (fst (userRepository_GetAllUsers world0))) = False"
proof -
  have f: "find (\<lambda>u. user_Id u = ''u1'') (user_table world0) = Some alice"
    by (simp add: world0_def alice_def)
  have m: "hd (fst (userRepository_GetAllUsers world0)) \<in> set (fst (userRepository_GetAllUsers world0))"
    by (simp add: userRepository_GetAllUsers_def world0_def alice_def)
  note p = userRepository_projection [of "''u1''" world0 alice]
  from p f have "userRepository_GetById ''u1'' world0 =
          (zero_User\<lparr>user_Id := user_Id alice, user_Name := user_Name alice,
                     user_Email := user_Email alice, user_AvatarUrl := user_AvatarUrl alice,
                     user_CreatedAt := user_CreatedAt alice,
                     user_UpdatedAt := user_UpdatedAt alice\<rparr>, None)"
    by blast
  moreover from p m have "user_Password (hd (fst (userRepository_GetAllUsers world0))) = []
     \<and> user_Active (hd (fst (userRepository_GetAllUsers world0))) = False"
    by blast
  ultimately show ?thesis
    by (simp add: alice_def zero_User_def)
qed

text \<open>
  The claim as stated fails on the one active user of the installation: the user
  \<^verbatim>\<open>GetAllUsers\<close> returns for alice has a false active flag.
\<close>

theorem GetAllUsers_active_counterexample:
  "fst (userRepository_GetAllUsers world0) =
     [\<lparr>user_Id = ''u1'', user_Name = ''Alice'', user_Username = [],
       user_Email = ''alice@example.org'', user_Password = [], user_AvatarUrl = ''a.png'',
       user_Active = False, user_Preferences = [], user_CreatedAt = zero_Time,
       user_UpdatedAt = zero_Time\<rparr>]
   \<and> user_Active alice = True"
  by (simp add: userRepository_GetAllUsers_def world0_def alice_def Select_GetAllUsers zero_User_def)

section \<open>Cascade from users to sessions\<close>





















end
